theory Spec2Isabelle
  imports Complex_Main
begin

section \<open>Data model of \<^verbatim>\<open>find_roots.py\<close>\<close>

text \<open>
  The four solvers of \<^verbatim>\<open>find_roots.py\<close> work on Python floats. The abscissas and
  function values are modelled as \<^typ>\<open>real\<close>: the control flow of the solvers is what
  is verified, and rounding is not modelled. The integer counters \<^verbatim>\<open>steps\<close>,
  \<^verbatim>\<open>calls\<close>, \<^verbatim>\<open>max_steps\<close> and \<^verbatim>\<open>use_bisection\<close> are Python's
  unbounded ints, hence \<^typ>\<open>int\<close>. Printing under \<^verbatim>\<open>verbose\<close> changes no
  variable and is left out.

  The messages of the \<^verbatim>\<open>ValueError\<close>s, with the number that is formatted into one
  of them.
\<close>

datatype message =
    Xtol_not_positive
  | Ftol_not_positive
  | Contraction_out_of_range
  | Use_bisection_invalid
  | Start_values_too_close real

text \<open>
  The exceptions that the solvers raise. \<^verbatim>\<open>find_roots.py\<close> consists of a docstring and
  four \<^verbatim>\<open>def\<close>s: it has no \<^verbatim>\<open>import\<close>, no \<^verbatim>\<open>class\<close> and no
  assignment at module level. The name \<^verbatim>\<open>AlgorithmFailure\<close> of its nine statements
  \<^verbatim>\<open>raise AlgorithmFailure(...)\<close> (lines 59, 122, 235, 253, 372, 389, 864, 871 and
  919) is therefore bound nowhere, and it is no built-in name: evaluating it raises
  \<^verbatim>\<open>NameError\<close> before the message is formatted, so each of these statements is
  modelled as raising \<open>NameError ''AlgorithmFailure''\<close>.
\<close>

datatype error =
    ValueError message
  | NameError string
  | UnboundLocalError string
  | TypeError
  | ZeroDivisionError

text \<open>
  The local variables of a solver. \<^verbatim>\<open>c\<close> and \<^verbatim>\<open>f_c\<close> are unbound until the
  first new point has been generated, hence options. \<open>evals\<close> is not a variable of the
  source: it records, in order, the arguments at which \<^verbatim>\<open>f\<close> has been called.
  \<open>use_bisection\<close> is a variable of the hybrid solver only.
\<close>

record state =
  a_pt :: real
  f_a :: real
  b_pt :: real
  f_b :: real
  c_pt :: "real option"
  f_c :: "real option"
  steps :: int
  calls :: int
  use_bisection :: int
  evals :: "real list"

text \<open>
  How one pass through a \<^verbatim>\<open>while True\<close> body ends: at the end of the body or at a
  \<^verbatim>\<open>continue\<close>, at a \<^verbatim>\<open>break\<close>, at a \<^verbatim>\<open>return\<close>, or at a
  \<^verbatim>\<open>raise\<close>.
\<close>

datatype outcome =
    Continue state
  | Break state
  | Return real state
  | Raise error state

type_synonym result = "(error + real) \<times> real list"

text \<open>Float division raises \<^verbatim>\<open>ZeroDivisionError\<close> on a zero divisor.\<close>

definition py_div :: "real \<Rightarrow> real \<Rightarrow> real option" where
  "py_div x y = (if y = 0 then None else Some (x / y))"

text \<open>
  The convergence test as every loop writes it (lines 99-111, 244-249, 398-403, 928-933):
  the new point \<open>c\<close> with value \<open>fc\<close> against the previous point \<open>b\<close>.
\<close>

definition conv_test :: "bool \<Rightarrow> real \<Rightarrow> real \<Rightarrow> real \<Rightarrow> real \<Rightarrow> real \<Rightarrow> bool" where
  "conv_test both xtol ftol c b fc =
     (if both then \<bar>c - b\<bar> \<le> xtol \<and> \<bar>fc\<bar> \<le> ftol
      else \<bar>c - b\<bar> \<le> xtol \<or> \<bar>fc\<bar> \<le> ftol)"

text \<open>
  The statement \<^verbatim>\<open>return c\<close> that follows the loops: reading a local variable
  that has not been assigned raises \<^verbatim>\<open>UnboundLocalError\<close>.
\<close>

definition return_c :: "state \<Rightarrow> result" where
  "return_c s =
     (case c_pt s of
        None \<Rightarrow> (Inl (UnboundLocalError ''c''), evals s)
      | Some c \<Rightarrow> (Inr c, evals s))"

section \<open>The bisection solver\<close>

text \<open>Lines 115-118: which endpoint the midpoint replaces.\<close>

definition bisection_update :: "state \<Rightarrow> real \<Rightarrow> real \<Rightarrow> state" where
  "bisection_update s c fc =
     (if f_a s * fc < f_b s * fc then s\<lparr>b_pt := c, f_b := fc\<rparr>
      else s\<lparr>a_pt := b_pt s, f_a := f_b s, b_pt := c, f_b := fc\<rparr>)"

text \<open>
  Lines 95-123: the body of the loop. It has no \<^verbatim>\<open>break\<close>: it ends by
  \<^verbatim>\<open>return c\<close>, by the iteration limit, or goes round again.
\<close>

definition bisection_iter ::
  "(real \<Rightarrow> real) \<Rightarrow> real \<Rightarrow> real \<Rightarrow> bool \<Rightarrow> int \<Rightarrow> state \<Rightarrow> outcome" where
  "bisection_iter f ftol xtol both max_steps s =
     (let c = 0.5 * (a_pt s + b_pt s);
          fc = f c;
          s1 = s\<lparr>c_pt := Some c, f_c := Some fc, calls := calls s + 1,
                 evals := evals s @ [c]\<rparr>
      in if conv_test both xtol ftol c (b_pt s1) fc then Return c s1
         else (let s2 = bisection_update s1 c fc;
                   s3 = s2\<lparr>steps := steps s2 + 1\<rparr>
               in if steps s3 > max_steps
                  then Raise (NameError ''AlgorithmFailure'') s3
                  else Continue s3))"

function bisection_loop ::
  "(real \<Rightarrow> real) \<Rightarrow> real \<Rightarrow> real \<Rightarrow> bool \<Rightarrow> int \<Rightarrow> state \<Rightarrow> result" where
  "bisection_loop f ftol xtol both max_steps s =
     (case bisection_iter f ftol xtol both max_steps s of
        Continue s' \<Rightarrow> bisection_loop f ftol xtol both max_steps s'
      | Break s' \<Rightarrow> return_c s'
      | Return r s' \<Rightarrow> (Inr r, evals s')
      | Raise e s' \<Rightarrow> (Inl e, evals s'))"
  by pat_completeness auto
termination
  by (relation "measure (\<lambda>(f, ftol, xtol, both, max_steps, s). nat (max_steps - steps s))")
     (auto simp: bisection_iter_def bisection_update_def Let_def split: if_splits)

declare bisection_loop.simps [simp del]

text \<open>Lines 50-91 and the entry into the loop.\<close>

definition find_root_bisection ::
  "(real \<Rightarrow> real) \<Rightarrow> real \<Rightarrow> real \<Rightarrow> real \<Rightarrow> real \<Rightarrow> bool \<Rightarrow> int \<Rightarrow> result" where
  "find_root_bisection f a b ftol xtol both max_steps =
     (if xtol \<le> 0 then (Inl (ValueError Xtol_not_positive), [])
      else if ftol \<le> 0 then (Inl (ValueError Ftol_not_positive), [])
      else (let fa = f a; fb = f b;
                loop = bisection_loop f ftol xtol both max_steps
                  \<lparr>a_pt = a, f_a = fa, b_pt = b, f_b = fb, c_pt = None, f_c = None,
                   steps = 1, calls = 2, use_bisection = 0, evals = [a, b]\<rparr>
            in if fa * fb > 0
               then (Inl (NameError ''AlgorithmFailure''), [a, b])
               else if both
                 then (if \<bar>b - a\<bar> \<le> xtol
                       then (if \<bar>fa\<bar> \<le> ftol then (Inr a, [a, b])
                             else if \<bar>fb\<bar> \<le> ftol then (Inr b, [a, b])
                             else loop)
                       else loop)
                 else (if \<bar>fa\<bar> \<le> ftol then (Inr a, [a, b])
                       else if \<bar>fb\<bar> \<le> ftol then (Inr b, [a, b])
                       else loop)))"

section \<open>Generating a new point from the secant line\<close>

text \<open>
  The secant, Regula Falsi and hybrid loops hold the same statements for the slope, its
  one repair and the new point (lines 221-242, 375-396 and 905-926). They end either in a
  \<^verbatim>\<open>break\<close> or a \<^verbatim>\<open>raise\<close>, or with a new point \<open>c\<close> and its value.
\<close>

datatype gen =
    Stop outcome
  | Point state real real

text \<open>Lines 240-242: \<^verbatim>\<open>c= b - f_b/slope\<close>, then \<^verbatim>\<open>f_c= f(c)\<close>.\<close>

definition new_point :: "(real \<Rightarrow> real) \<Rightarrow> real \<Rightarrow> state \<Rightarrow> gen" where
  "new_point f slope s =
     (case py_div (f_b s) slope of
        None \<Rightarrow> Stop (Raise ZeroDivisionError s)
      | Some q \<Rightarrow>
          (let c = b_pt s - q; fc = f c
           in Point (s\<lparr>c_pt := Some c, f_c := Some fc, calls := calls s + 1,
                        evals := evals s @ [c]\<rparr>) c fc))"

text \<open>Lines 221-236: the slope, and the shift of \<^verbatim>\<open>b\<close> towards \<^verbatim>\<open>a\<close>.\<close>

definition gen_point :: "(real \<Rightarrow> real) \<Rightarrow> real \<Rightarrow> real \<Rightarrow> state \<Rightarrow> gen" where
  "gen_point f min_slope xtol s =
     (case py_div (f_b s - f_a s) (b_pt s - a_pt s) of
        None \<Rightarrow> Stop (Raise ZeroDivisionError s)
      | Some slope \<Rightarrow>
          if \<bar>slope\<bar> < min_slope
          then (let b' = 0.3679 * a_pt s + 0.6321 * b_pt s;
                    s1 = s\<lparr>b_pt := b', f_b := f b', calls := calls s + 1,
                           evals := evals s @ [b']\<rparr>
                in case py_div (f_b s1 - f_a s1) (b_pt s1 - a_pt s1) of
                     None \<Rightarrow> Stop (Raise ZeroDivisionError s1)
                   | Some slope' \<Rightarrow>
                       if \<bar>slope'\<bar> < min_slope
                       then (if \<bar>b_pt s1 - a_pt s1\<bar> \<le> xtol then Stop (Break s1)
                             else Stop (Raise (NameError ''AlgorithmFailure'') s1))
                       else new_point f slope' s1)
          else new_point f slope s)"

text \<open>
  The two initial points (lines 180-217, 327-366 and 821-860, which differ in the initial
  value of \<^verbatim>\<open>steps\<close> only): an early result, or the state in which the loop starts.
\<close>

definition initial_points ::
  "(real \<Rightarrow> real) \<Rightarrow> real \<Rightarrow> real \<Rightarrow> real \<Rightarrow> real \<Rightarrow> bool \<Rightarrow> int \<Rightarrow> int \<Rightarrow> result + state" where
  "initial_points f a b ftol xtol both steps0 ub =
     (if both
      then (let fa = f a; fb = f b;
                s = \<lparr>a_pt = a, f_a = fa, b_pt = b, f_b = fb, c_pt = None, f_c = None,
                     steps = steps0, calls = 2, use_bisection = ub, evals = [a, b]\<rparr>
            in if \<bar>b - a\<bar> \<le> xtol
               then (if \<bar>fa\<bar> \<le> ftol then Inl (Inr a, [a, b])
                     else if \<bar>fb\<bar> \<le> ftol then Inl (Inr b, [a, b])
                     else Inr s)
               else Inr s)
      else if \<bar>b - a\<bar> \<le> xtol
      then Inl (Inl (ValueError (Start_values_too_close xtol)), [])
      else (let fa = f a
            in if \<bar>fa\<bar> \<le> ftol then Inl (Inr a, [a])
               else (let fb = f b
                     in if \<bar>fb\<bar> \<le> ftol then Inl (Inr b, [a, b])
                        else Inr \<lparr>a_pt = a, f_a = fa, b_pt = b, f_b = fb, c_pt = None,
                                  f_c = None, steps = steps0, calls = 2,
                                  use_bisection = ub, evals = [a, b]\<rparr>)))"

text \<open>Generating a point leaves the step counter alone.\<close>

lemma new_point_steps:
  "new_point f slope s = Point s1 c fc \<Longrightarrow> steps s1 = steps s"
  by (auto simp: new_point_def py_div_def Let_def split: if_splits)

lemma gen_point_steps:
  "gen_point f min_slope xtol s = Point s1 c fc \<Longrightarrow> steps s1 = steps s"
  unfolding gen_point_def py_div_def Let_def
  by (auto split: if_splits dest!: new_point_steps)

lemma new_point_not_continue: "new_point f slope s \<noteq> Stop (Continue s')"
  by (auto simp: new_point_def py_div_def Let_def split: if_splits)

lemma gen_point_not_continue: "gen_point f min_slope xtol s \<noteq> Stop (Continue s')"
  unfolding gen_point_def py_div_def Let_def
  by (auto split: if_splits simp: new_point_not_continue)

text \<open>What a generated point leaves of the state, and where it lies.\<close>

lemma new_point_frame:
  assumes "new_point f slope s = Point s1 c fc"
  shows "s1 = s\<lparr>c_pt := Some c, f_c := Some fc, calls := calls s + 1, evals := evals s @ [c]\<rparr>
       \<and> fc = f c \<and> slope \<noteq> 0 \<and> c = b_pt s - f_b s / slope"
  using assms by (auto simp: new_point_def py_div_def Let_def split: if_splits)

lemma gen_point_frame:
  assumes "gen_point f min_slope xtol s = Point s1 c fc"
  shows "a_pt s1 = a_pt s \<and> f_a s1 = f_a s \<and> steps s1 = steps s
       \<and> use_bisection s1 = use_bisection s \<and> c_pt s1 = Some c \<and> fc = f c
       \<and> b_pt s1 \<noteq> a_pt s1 \<and> f_b s1 \<noteq> f_a s1
       \<and> c = b_pt s1 - f_b s1 / ((f_b s1 - f_a s1) / (b_pt s1 - a_pt s1))"
  using assms unfolding gen_point_def py_div_def Let_def
  by (auto split: if_splits dest!: new_point_frame)

section \<open>The secant solver\<close>

text \<open>Lines 221-257: the body of the loop.\<close>

definition secant_iter ::
  "(real \<Rightarrow> real) \<Rightarrow> real \<Rightarrow> real \<Rightarrow> bool \<Rightarrow> int \<Rightarrow> real \<Rightarrow> state \<Rightarrow> outcome" where
  "secant_iter f ftol xtol both max_steps min_slope s =
     (case gen_point f min_slope xtol s of
        Stop out \<Rightarrow> out
      | Point s1 c fc \<Rightarrow>
          if conv_test both xtol ftol c (b_pt s1) fc then Break s1
          else (let s2 = s1\<lparr>steps := steps s1 + 1\<rparr>
                in if steps s2 > max_steps
                   then Raise (NameError ''AlgorithmFailure'') s2
                   else Continue (s2\<lparr>a_pt := b_pt s2, f_a := f_b s2,
                                     b_pt := c, f_b := fc\<rparr>)))"

lemma secant_iter_steps:
  assumes "secant_iter f ftol xtol both max_steps min_slope s = Continue s'"
  shows "steps s' = steps s + 1 \<and> steps s' \<le> max_steps"
proof (cases "gen_point f min_slope xtol s")
  case (Stop out)
  with assms show ?thesis by (simp add: secant_iter_def gen_point_not_continue)
next
  case (Point s1 c fc)
  from gen_point_steps [OF Point] have "steps s1 = steps s" .
  with assms Point show ?thesis
    by (auto simp: secant_iter_def Let_def split: if_splits)
qed

function secant_loop ::
  "(real \<Rightarrow> real) \<Rightarrow> real \<Rightarrow> real \<Rightarrow> bool \<Rightarrow> int \<Rightarrow> real \<Rightarrow> state \<Rightarrow> result" where
  "secant_loop f ftol xtol both max_steps min_slope s =
     (case secant_iter f ftol xtol both max_steps min_slope s of
        Continue s' \<Rightarrow> secant_loop f ftol xtol both max_steps min_slope s'
      | Break s' \<Rightarrow> return_c s'
      | Return r s' \<Rightarrow> (Inr r, evals s')
      | Raise e s' \<Rightarrow> (Inl e, evals s'))"
  by pat_completeness auto
termination
  by (relation "measure (\<lambda>(f, ftol, xtol, both, max_steps, min_slope, s).
        nat (max_steps - steps s))")
     (auto dest: secant_iter_steps)

declare secant_loop.simps [simp del]

text \<open>Lines 172-217 and the entry into the loop.\<close>

definition find_root_secant ::
  "(real \<Rightarrow> real) \<Rightarrow> real \<Rightarrow> real \<Rightarrow> real \<Rightarrow> real \<Rightarrow> bool \<Rightarrow> int \<Rightarrow> real \<Rightarrow> result" where
  "find_root_secant f a b ftol xtol both max_steps min_slope =
     (if xtol \<le> 0 then (Inl (ValueError Xtol_not_positive), [])
      else if ftol \<le> 0 then (Inl (ValueError Ftol_not_positive), [])
      else (case initial_points f a b ftol xtol both 1 0 of
              Inl r \<Rightarrow> r
            | Inr s \<Rightarrow> secant_loop f ftol xtol both max_steps min_slope s))"

section \<open>The Regula Falsi solver\<close>

text \<open>Lines 405-438: the next pair of points.\<close>

definition regula_falsi_update :: "state \<Rightarrow> real \<Rightarrow> real \<Rightarrow> state" where
  "regula_falsi_update s c fc =
     (if f_a s * f_b s < 0
      then (let x_min = min (a_pt s) (b_pt s); x_max = max (a_pt s) (b_pt s)
            in if \<not> (x_min < c \<and> c < x_max) then s
               else if f_b s * fc \<ge> 0 then s\<lparr>b_pt := c, f_b := fc\<rparr>
               else s\<lparr>a_pt := b_pt s, f_a := f_b s, b_pt := c, f_b := fc\<rparr>)
      else s\<lparr>a_pt := b_pt s, f_a := f_b s, b_pt := c, f_b := fc\<rparr>)"

text \<open>Lines 370-438: the body of the loop.\<close>

definition regula_falsi_iter ::
  "(real \<Rightarrow> real) \<Rightarrow> real \<Rightarrow> real \<Rightarrow> bool \<Rightarrow> int \<Rightarrow> real \<Rightarrow> state \<Rightarrow> outcome" where
  "regula_falsi_iter f ftol xtol both max_steps min_slope s =
     (let s0 = s\<lparr>steps := steps s + 1\<rparr>
      in if steps s0 > max_steps
         then Raise (NameError ''AlgorithmFailure'') s0
         else (case gen_point f min_slope xtol s0 of
                 Stop out \<Rightarrow> out
               | Point s1 c fc \<Rightarrow>
                   if conv_test both xtol ftol c (b_pt s1) fc then Break s1
                   else Continue (regula_falsi_update s1 c fc)))"

lemma regula_falsi_update_steps: "steps (regula_falsi_update s c fc) = steps s"
  by (simp add: regula_falsi_update_def Let_def)

lemma regula_falsi_iter_steps:
  assumes "regula_falsi_iter f ftol xtol both max_steps min_slope s = Continue s'"
  shows "steps s' = steps s + 1 \<and> steps s' \<le> max_steps"
proof (cases "gen_point f min_slope xtol (s\<lparr>steps := steps s + 1\<rparr>)")
  case (Stop out)
  with assms show ?thesis
    by (simp add: regula_falsi_iter_def Let_def gen_point_not_continue split: if_splits)
next
  case (Point s1 c fc)
  from gen_point_steps [OF Point] have "steps s1 = steps s + 1" by simp
  with assms Point show ?thesis
    by (auto simp: regula_falsi_iter_def Let_def regula_falsi_update_steps split: if_splits)
qed

function regula_falsi_loop ::
  "(real \<Rightarrow> real) \<Rightarrow> real \<Rightarrow> real \<Rightarrow> bool \<Rightarrow> int \<Rightarrow> real \<Rightarrow> state \<Rightarrow> result" where
  "regula_falsi_loop f ftol xtol both max_steps min_slope s =
     (case regula_falsi_iter f ftol xtol both max_steps min_slope s of
        Continue s' \<Rightarrow> regula_falsi_loop f ftol xtol both max_steps min_slope s'
      | Break s' \<Rightarrow> return_c s'
      | Return r s' \<Rightarrow> (Inr r, evals s')
      | Raise e s' \<Rightarrow> (Inl e, evals s'))"
  by pat_completeness auto
termination
  by (relation "measure (\<lambda>(f, ftol, xtol, both, max_steps, min_slope, s).
        nat (max_steps - steps s))")
     (auto dest: regula_falsi_iter_steps)

declare regula_falsi_loop.simps [simp del]

text \<open>
  Lines 318 and 322 read \<^verbatim>\<open>contraction_factor\<close> and \<^verbatim>\<open>use_bisection\<close>. Neither is
  a parameter of \<^verbatim>\<open>find_root_Regula_Falsi\<close> (line 268) and neither is assigned in
  its body, so Python looks them up among the names bound at module level, and then among
  the built-in names, where they are not. The values such a name can hold, and the module
  namespace of \<^verbatim>\<open>find_roots.py\<close>, whose only statements at module level are the
  four \<^verbatim>\<open>def\<close>s.
\<close>

datatype pyval = PyFloat real | PyInt int | PyFunction

definition module_globals :: "string \<rightharpoonup> pyval" where
  "module_globals =
     [''find_root_bisection'' \<mapsto> PyFunction, ''find_root_secant'' \<mapsto> PyFunction,
      ''find_root_Regula_Falsi'' \<mapsto> PyFunction, ''find_root'' \<mapsto> PyFunction]"

text \<open>
  The comparisons of lines 318 and 322 on such a value: a function compared with a number
  raises \<^verbatim>\<open>TypeError\<close>, and only an int passes the \<^verbatim>\<open>isinstance\<close> test.
\<close>

definition number_of :: "pyval \<Rightarrow> real option" where
  "number_of v = (case v of PyFloat r \<Rightarrow> Some r | PyInt n \<Rightarrow> Some (of_int n) | PyFunction \<Rightarrow> None)"

text \<open>Lines 314-366 and the entry into the loop.\<close>

definition find_root_Regula_Falsi ::
  "(real \<Rightarrow> real) \<Rightarrow> real \<Rightarrow> real \<Rightarrow> real \<Rightarrow> real \<Rightarrow> bool \<Rightarrow> int \<Rightarrow> real \<Rightarrow> result" where
  "find_root_Regula_Falsi f a b ftol xtol both max_steps min_slope =
     (if xtol \<le> 0 then (Inl (ValueError Xtol_not_positive), [])
      else if ftol \<le> 0 then (Inl (ValueError Ftol_not_positive), [])
      else (case module_globals ''contraction_factor'' of
              None \<Rightarrow> (Inl (NameError ''contraction_factor''), [])
            | Some v \<Rightarrow>
               (case number_of v of
                  None \<Rightarrow> (Inl TypeError, [])
                | Some cf \<Rightarrow>
                   if \<not> (0.5 \<le> cf \<and> cf \<le> 1) then (Inl (ValueError Contraction_out_of_range), [])
                   else (case module_globals ''use_bisection'' of
                           None \<Rightarrow> (Inl (NameError ''use_bisection''), [])
                         | Some u \<Rightarrow>
                            if (case u of PyInt n \<Rightarrow> n < 0 | PyFloat r \<Rightarrow> True
                                | PyFunction \<Rightarrow> True)
                            then (Inl (ValueError Use_bisection_invalid), [])
                            else (case initial_points f a b ftol xtol both 0 0 of
                                    Inl r \<Rightarrow> r
                                  | Inr s \<Rightarrow> regula_falsi_loop f ftol xtol both max_steps
                                              min_slope s)))))"

section \<open>The hybrid solver\<close>

text \<open>Lines 882-897: a bisection step.\<close>

definition hybrid_bisect :: "(real \<Rightarrow> real) \<Rightarrow> state \<Rightarrow> state" where
  "hybrid_bisect f s =
     (let c = 0.5 * (a_pt s + b_pt s);
          fc = f c;
          s1 = s\<lparr>c_pt := Some c, f_c := Some fc, calls := calls s + 1,
                 evals := evals s @ [c]\<rparr>;
          s2 = (if f_a s1 * fc < 0 then s1\<lparr>b_pt := c, f_b := fc\<rparr>
                else s1\<lparr>a_pt := b_pt s1, f_a := f_b s1, b_pt := c, f_b := fc\<rparr>)
      in s2\<lparr>use_bisection := use_bisection s2 - 1\<rparr>)"

text \<open>Lines 935-977: the next pair of points after a Regula Falsi step.\<close>

definition hybrid_update :: "real \<Rightarrow> state \<Rightarrow> real \<Rightarrow> real \<Rightarrow> state" where
  "hybrid_update contraction_factor s c fc =
     (if f_a s * f_b s < 0
      then (let x_min = min (a_pt s) (b_pt s); x_max = max (a_pt s) (b_pt s)
            in if \<not> (x_min < c \<and> c < x_max) then s\<lparr>use_bisection := 1\<rparr>
               else (let x_rng = x_max - x_min;
                         s1 = (if f_b s * fc \<ge> 0 then s\<lparr>b_pt := c, f_b := fc\<rparr>
                               else s\<lparr>a_pt := b_pt s, f_a := f_b s, b_pt := c, f_b := fc\<rparr>)
                     in if max (a_pt s1) (b_pt s1) - min (a_pt s1) (b_pt s1)
                             > contraction_factor * x_rng
                        then s1\<lparr>use_bisection := 1\<rparr>
                        else s1))
      else s\<lparr>a_pt := b_pt s, f_a := f_b s, b_pt := c, f_b := fc\<rparr>)"

text \<open>Lines 869-977: the body of the loop.\<close>

definition hybrid_iter ::
  "(real \<Rightarrow> real) \<Rightarrow> real \<Rightarrow> real \<Rightarrow> bool \<Rightarrow> real \<Rightarrow> int \<Rightarrow> real \<Rightarrow> state \<Rightarrow> outcome" where
  "hybrid_iter f ftol xtol both contraction_factor max_steps min_slope s =
     (let s0 = s\<lparr>steps := steps s + 1\<rparr>
      in if steps s0 > max_steps
         then Raise (NameError ''AlgorithmFailure'') s0
         else if use_bisection s0 \<noteq> 0 then Continue (hybrid_bisect f s0)
         else (case gen_point f min_slope xtol s0 of
                 Stop out \<Rightarrow> out
               | Point s1 c fc \<Rightarrow>
                   if conv_test both xtol ftol c (b_pt s1) fc then Break s1
                   else Continue (hybrid_update contraction_factor s1 c fc)))"

lemma hybrid_update_steps: "steps (hybrid_update contraction_factor s c fc) = steps s"
  by (simp add: hybrid_update_def Let_def)

lemma hybrid_bisect_steps: "steps (hybrid_bisect f s) = steps s"
  by (simp add: hybrid_bisect_def Let_def)

lemma hybrid_iter_steps:
  assumes "hybrid_iter f ftol xtol both contraction_factor max_steps min_slope s = Continue s'"
  shows "steps s' = steps s + 1 \<and> steps s' \<le> max_steps"
proof (cases "use_bisection s \<noteq> 0")
  case True
  with assms show ?thesis
    by (auto simp: hybrid_iter_def Let_def hybrid_bisect_steps split: if_splits)
next
  case False
  show ?thesis
  proof (cases "gen_point f min_slope xtol (s\<lparr>steps := steps s + 1\<rparr>)")
    case (Stop out)
    with assms False show ?thesis
      by (simp add: hybrid_iter_def Let_def gen_point_not_continue split: if_splits)
  next
    case (Point s1 c fc)
    from gen_point_steps [OF Point] have "steps s1 = steps s + 1" by simp
    with assms Point False show ?thesis
      by (auto simp: hybrid_iter_def Let_def hybrid_update_steps split: if_splits)
  qed
qed

function hybrid_loop ::
  "(real \<Rightarrow> real) \<Rightarrow> real \<Rightarrow> real \<Rightarrow> bool \<Rightarrow> real \<Rightarrow> int \<Rightarrow> real \<Rightarrow> state \<Rightarrow> result" where
  "hybrid_loop f ftol xtol both contraction_factor max_steps min_slope s =
     (case hybrid_iter f ftol xtol both contraction_factor max_steps min_slope s of
        Continue s' \<Rightarrow> hybrid_loop f ftol xtol both contraction_factor max_steps min_slope s'
      | Break s' \<Rightarrow> return_c s'
      | Return r s' \<Rightarrow> (Inr r, evals s')
      | Raise e s' \<Rightarrow> (Inl e, evals s'))"
  by pat_completeness auto
termination
  by (relation "measure (\<lambda>(f, ftol, xtol, both, contraction_factor, max_steps, min_slope, s).
        nat (max_steps - steps s))")
     (auto dest: hybrid_iter_steps)

declare hybrid_loop.simps [simp del]

text \<open>
  Lines 808-865 and the entry into the loop. \<^verbatim>\<open>use_bisection\<close> is given as an int, so
  the \<^verbatim>\<open>isinstance\<close> test of line 816 holds.
\<close>

definition find_root ::
  "(real \<Rightarrow> real) \<Rightarrow> real \<Rightarrow> real \<Rightarrow> real \<Rightarrow> real \<Rightarrow> bool \<Rightarrow> real \<Rightarrow> int \<Rightarrow> real \<Rightarrow> int \<Rightarrow> result" where
  "find_root f a b ftol xtol both contraction_factor max_steps min_slope ub =
     (if xtol \<le> 0 then (Inl (ValueError Xtol_not_positive), [])
      else if ftol \<le> 0 then (Inl (ValueError Ftol_not_positive), [])
      else if \<not> (0.5 \<le> contraction_factor \<and> contraction_factor \<le> 1)
      then (Inl (ValueError Contraction_out_of_range), [])
      else if ub < 0 then (Inl (ValueError Use_bisection_invalid), [])
      else (case initial_points f a b ftol xtol both 0 ub of
              Inl r \<Rightarrow> r
            | Inr s \<Rightarrow>
                if use_bisection s \<noteq> 0 \<and> f_a s * f_b s > 0
                then (Inl (NameError ''AlgorithmFailure''), evals s)
                else hybrid_loop f ftol xtol both contraction_factor max_steps min_slope s))"

section \<open>Notions used in the statements\<close>

text \<open>
  The pair of iterates with their values, the state in which one pass through a loop body
  ends, the width of the interval between the two iterates, and the identity as a function
  to solve.
\<close>

definition pair :: "state \<Rightarrow> (real \<times> real) \<times> (real \<times> real)" where
  "pair s = ((a_pt s, f_a s), (b_pt s, f_b s))"

definition state_of :: "outcome \<Rightarrow> state" where
  "state_of out = (case out of Continue t \<Rightarrow> t | Break t \<Rightarrow> t | Return r t \<Rightarrow> t | Raise e t \<Rightarrow> t)"

definition width :: "state \<Rightarrow> real" where
  "width s = max (a_pt s) (b_pt s) - min (a_pt s) (b_pt s)"

definition ident :: "real \<Rightarrow> real" where
  "ident x = x"

text \<open>A function with the roots \<open>-1\<close> and \<open>1\<close>.\<close>

definition parabola :: "real \<Rightarrow> real" where
  "parabola x = x * x - 1"

text \<open>A function with the root \<open>1/10\<close>.\<close>

definition shifted :: "real \<Rightarrow> real" where
  "shifted x = x - 1/10"

text \<open>A constant function, and a function with two negative levels.\<close>

definition flat :: "real \<Rightarrow> real" where
  "flat x = 1"

definition two_levels :: "real \<Rightarrow> real" where
  "two_levels x = (if x < 1/2 then - 2 else - 1)"



lemma sign_keep_b: "x * y < 0 \<Longrightarrow> \<not> x * z < 0 \<Longrightarrow> y * z \<le> (0::real)"
  by (auto simp: mult_less_0_iff zero_le_mult_iff mult_le_0_iff not_less)

lemma same_sign: "0 < x * z \<Longrightarrow> 0 < y * z \<Longrightarrow> 0 < x * (y::real)"
  by (auto simp: zero_less_mult_iff)

lemma sign_bisect_a: "x * y \<le> 0 \<Longrightarrow> x * z < y * z \<Longrightarrow> x * z \<le> (0::real)"
proof (rule ccontr)
  assume a: "x * y \<le> 0" "x * z < y * z" and "\<not> x * z \<le> 0"
  then have p: "0 < x * z" by simp
  with a have q: "0 < y * z" by simp
  from same_sign [OF p q] a show False by simp
qed

lemma sign_bisect_b: "x * y \<le> 0 \<Longrightarrow> \<not> x * z < y * z \<Longrightarrow> y * z \<le> (0::real)"
proof (rule ccontr)
  assume a: "x * y \<le> 0" "\<not> x * z < y * z" and "\<not> y * z \<le> 0"
  then have q: "0 < y * z" by simp
  with a have p: "0 < x * z" by simp
  from same_sign [OF p q] a show False by simp
qed

section \<open>Properties of the bisection solver\<close>

text \<open>What one pass and the whole loop of the bisection solver can end in.\<close>

lemma bisection_iter_raise:
  "bisection_iter f ftol xtol both max_steps s = Raise e s' \<Longrightarrow>
     e = NameError ''AlgorithmFailure''"
  by (auto simp: bisection_iter_def Let_def split: if_splits)

lemma bisection_iter_not_break: "bisection_iter f ftol xtol both max_steps s \<noteq> Break s'"
  by (auto simp: bisection_iter_def Let_def split: if_splits)

lemma bisection_iter_evals:
  "\<exists>ys. evals (state_of (bisection_iter f ftol xtol both max_steps s)) = evals s @ ys"
  by (auto simp: bisection_iter_def bisection_update_def state_of_def Let_def split: if_splits)

lemma bisection_loop_evals:
  "\<exists>ys. snd (bisection_loop f ftol xtol both max_steps s) = evals s @ ys"
proof (induction f ftol xtol both max_steps s rule: bisection_loop.induct)
  case (1 f ftol xtol both max_steps s)
  from bisection_iter_evals [of f ftol xtol both max_steps s]
  obtain ys where ys:
    "evals (state_of (bisection_iter f ftol xtol both max_steps s)) = evals s @ ys"
    by blast
  show ?case
  proof (cases "bisection_iter f ftol xtol both max_steps s")
    case (Continue s')
    with 1 obtain zs where "snd (bisection_loop f ftol xtol both max_steps s') = evals s' @ zs"
      by blast
    with Continue ys show ?thesis
      by (simp add: bisection_loop.simps [of f ftol xtol both max_steps s] state_of_def)
  next
    case (Break s')
    then show ?thesis by (simp add: bisection_iter_not_break)
  next
    case (Return r s')
    with ys show ?thesis
      by (simp add: bisection_loop.simps [of f ftol xtol both max_steps s] state_of_def)
  next
    case (Raise e s')
    with ys show ?thesis
      by (simp add: bisection_loop.simps [of f ftol xtol both max_steps s] state_of_def)
  qed
qed

lemma bisection_loop_outcome:
  "(\<exists>r. fst (bisection_loop f ftol xtol both max_steps s) = Inr r)
   \<or> fst (bisection_loop f ftol xtol both max_steps s) = Inl (NameError ''AlgorithmFailure'')"
proof (induction f ftol xtol both max_steps s rule: bisection_loop.induct)
  case (1 f ftol xtol both max_steps s)
  show ?case
  proof (cases "bisection_iter f ftol xtol both max_steps s")
    case (Continue s')
    with 1 show ?thesis by (simp add: bisection_loop.simps [of f ftol xtol both max_steps s])
  next
    case (Break s')
    then show ?thesis by (simp add: bisection_iter_not_break)
  next
    case (Return r s')
    then show ?thesis by (simp add: bisection_loop.simps [of f ftol xtol both max_steps s])
  next
    case (Raise e s')
    with bisection_iter_raise [OF Raise] show ?thesis
      by (simp add: bisection_loop.simps [of f ftol xtol both max_steps s])
  qed
qed

text \<open>
  C7. With positive tolerances the bisection solver evaluates \<open>f\<close> at \<open>a\<close> and then at
  \<open>b\<close>, once each, before anything else, and it accepts a pair whose product is zero or
  negative: it goes on to the tests for convergence at \<open>a\<close> and \<open>b\<close> and into its loop. When
  \<open>f a * f b > 0\<close> it stops there, with these two evaluations only, but the exception
  that leaves the solver is the \<^verbatim>\<open>NameError\<close> of the unbound name
  \<^verbatim>\<open>AlgorithmFailure\<close>, not an exception that points the caller to
  \<^verbatim>\<open>find_root\<close>. Every exception of a run with positive tolerances is this same
  \<^verbatim>\<open>NameError\<close>, so the caller cannot tell the failed check from the iteration
  limit.
\<close>

theorem bisection_bracket_check_name_error:
  assumes "0 < xtol" and "0 < ftol"
  shows "(f a * f b > 0 \<longrightarrow>
            find_root_bisection f a b ftol xtol both max_steps =
              (Inl (NameError ''AlgorithmFailure''), [a, b]))
       \<and> (f a * f b \<le> 0 \<longrightarrow>
            find_root_bisection f a b ftol xtol both max_steps =
              (if (both \<longrightarrow> \<bar>b - a\<bar> \<le> xtol) \<and> \<bar>f a\<bar> \<le> ftol then (Inr a, [a, b])
               else if (both \<longrightarrow> \<bar>b - a\<bar> \<le> xtol) \<and> \<bar>f b\<bar> \<le> ftol then (Inr b, [a, b])
               else bisection_loop f ftol xtol both max_steps
                      \<lparr>a_pt = a, f_a = f a, b_pt = b, f_b = f b, c_pt = None, f_c = None,
                       steps = 1, calls = 2, use_bisection = 0, evals = [a, b]\<rparr>))
       \<and> take 2 (snd (find_root_bisection f a b ftol xtol both max_steps)) = [a, b]
       \<and> ((\<exists>r. fst (find_root_bisection f a b ftol xtol both max_steps) = Inr r)
          \<or> fst (find_root_bisection f a b ftol xtol both max_steps) =
               Inl (NameError ''AlgorithmFailure''))"
proof -
  let ?s = "\<lparr>a_pt = a, f_a = f a, b_pt = b, f_b = f b, c_pt = None, f_c = None,
             steps = 1, calls = 2, use_bisection = 0, evals = [a, b]\<rparr>"
  have n: "(\<exists>r. fst (bisection_loop f ftol xtol bo max_steps ?s) = Inr r)
     \<or> fst (bisection_loop f ftol xtol bo max_steps ?s) = Inl (NameError ''AlgorithmFailure'')"
    for bo
    by (rule bisection_loop_outcome)
  have e: "take 2 (snd (bisection_loop f ftol xtol bo max_steps ?s)) = [a, b]" for bo
  proof -
    obtain ys where "snd (bisection_loop f ftol xtol bo max_steps ?s) = evals ?s @ ys"
      using bisection_loop_evals by blast
    then show ?thesis by simp
  qed
  from assms n e show ?thesis
    by (simp add: find_root_bisection_def Let_def)
qed

theorem bisection_bracket_check_name_error_witness:
  "find_root_bisection ident 1 2 (1/2) (1/2) True 10 =
     (Inl (NameError ''AlgorithmFailure''), [1, 2])
   \<and> find_root_bisection ident 0 2 (1/2) (1/2) True 10 = (Inr (1/2), [0, 2, 1, 1/2])"
proof -
  have h: "(0::real) < 1/2" by simp
  have l: "bisection_loop ident (1/2) (1/2) True 10
             \<lparr>a_pt = 0, f_a = 0, b_pt = 2, f_b = 2, c_pt = None, f_c = None,
              steps = 1, calls = 2, use_bisection = 0, evals = [0, 2]\<rparr> =
           (Inr (1/2), [0, 2, 1, 1/2])"
    by (simp add: bisection_loop.simps bisection_iter_def bisection_update_def conv_test_def
          ident_def Let_def)
  show ?thesis
    using bisection_bracket_check_name_error [OF h h, of ident 1 2 True 10]
          bisection_bracket_check_name_error [OF h h, of ident 0 2 True 10] l
    by (simp add: ident_def)
qed

text \<open>
  The iteration limit of a run that passed the check on the signs ends in the same
  exception.
\<close>

lemma bisection_limit_same_error:
  "ident (- 1) * ident 3 \<le> 0
   \<and> find_root_bisection ident (- 1) 3 (1/2) (1/2) True 1 =
       (Inl (NameError ''AlgorithmFailure''), [- 1, 3, 1])"
  by (simp add: find_root_bisection_def ident_def Let_def bisection_loop.simps
        bisection_iter_def bisection_update_def conv_test_def)

text \<open>
  The state in which \<^verbatim>\<open>find_root_bisection\<close> enters its loop for \<open>f x = x\<close>,
  \<open>a = -1\<close>, \<open>b = 3\<close>.
\<close>

definition kept_a :: state where
  "kept_a = \<lparr>a_pt = - 1, f_a = - 1, b_pt = 3, f_b = 3, c_pt = None, f_c = None,
             steps = 1, calls = 2, use_bisection = 0, evals = [- 1, 3]\<rparr>"

text \<open>
  C8, as stated, has the solver keep the endpoint whose product with \<open>f c\<close> is the larger
  one. Here the midpoint is \<open>1\<close>, the products are \<open>-1\<close> for \<open>a\<close> and \<open>3\<close> for
  \<open>b\<close>, and the pair becomes \<open>(a, c)\<close>: the endpoint with the smaller product is kept.
\<close>

theorem bisection_keeps_larger_counterexample:
  "initial_points ident (- 1) 3 (1/2) (1/2) True 1 0 = Inr kept_a
   \<and> f_a kept_a * ident 1 < f_b kept_a * ident 1
   \<and> pair (state_of (bisection_iter ident (1/2) (1/2) True 10 kept_a)) = ((- 1, - 1), (1, 1))"
  by (simp add: initial_points_def kept_a_def ident_def bisection_iter_def bisection_update_def
        conv_test_def pair_def state_of_def Let_def)

text \<open>
  C8, amended. A pass of the bisection loop that does not converge at the midpoint \<open>c\<close>
  replaces the endpoint whose product with \<open>f c\<close> is the larger one and keeps the other:
  the pair becomes \<open>(a, c)\<close> when \<open>f_a * f c < f_b * f c\<close> and \<open>(b, c)\<close> otherwise.
  When \<open>f c = 0\<close> the products tie and the pair becomes \<open>(b, c)\<close>; and a pair with
  \<open>f_a * f_b \<le> 0\<close> is followed by a pair with \<open>f_a * f_b \<le> 0\<close>. This holds also for the
  pass that ends at the iteration limit.
\<close>

theorem bisection_update_pair:
  assumes "c = 0.5 * (a_pt s + b_pt s)"
    and "\<not> conv_test both xtol ftol c (b_pt s) (f c)"
  shows "pair (state_of (bisection_iter f ftol xtol both max_steps s)) =
           (if f_a s * f c < f_b s * f c then ((a_pt s, f_a s), (c, f c))
            else ((b_pt s, f_b s), (c, f c)))
       \<and> (f c = 0 \<longrightarrow>
            pair (state_of (bisection_iter f ftol xtol both max_steps s)) =
              ((b_pt s, f_b s), (c, 0)))
       \<and> (f_a s * f_b s \<le> 0 \<longrightarrow>
            f_a (state_of (bisection_iter f ftol xtol both max_steps s)) *
            f_b (state_of (bisection_iter f ftol xtol both max_steps s)) \<le> 0)"
  using assms(2) unfolding assms(1)
  by (auto simp: bisection_iter_def bisection_update_def pair_def state_of_def Let_def
           intro: sign_bisect_a sign_bisect_b)

theorem bisection_update_pair_witness:
  "pair (state_of (bisection_iter ident (1/2) (1/2) True 10 kept_a)) = ((- 1, - 1), (1, 1))
   \<and> f_a (state_of (bisection_iter ident (1/2) (1/2) True 10 kept_a)) *
     f_b (state_of (bisection_iter ident (1/2) (1/2) True 10 kept_a)) \<le> 0"
  using bisection_update_pair [where c = 1 and s = kept_a and f = ident and both = True
          and xtol = "1/2" and ftol = "1/2" and max_steps = 10]
  by (simp add: kept_a_def ident_def conv_test_def)

section \<open>Properties of the hybrid solver: one pass through the loop\<close>

text \<open>
  C9. A pass of the hybrid loop that starts below the iteration limit with
  \<open>use_bisection > 0\<close> evaluates \<open>f\<close> at the midpoint \<open>c\<close> and nowhere else, replaces \<open>b\<close>
  by \<open>c\<close> when \<open>f_a * f c < 0\<close> and otherwise moves the old \<open>b\<close> to \<open>a\<close> and \<open>c\<close> to \<open>b\<close>
  (so \<open>f c = 0\<close> takes the second branch), takes one off \<open>use_bisection\<close> and goes round
  again: the state it leaves depends on none of \<open>ftol\<close>, \<open>xtol\<close>, \<open>both\<close>,
  \<open>contraction_factor\<close> and \<open>min_slope\<close>, which only the Regula Falsi statements read.
\<close>

theorem hybrid_bisection_step:
  assumes "0 < use_bisection s" and "steps s + 1 \<le> max_steps"
    and "c = 0.5 * (a_pt s + b_pt s)"
  shows "hybrid_iter f ftol xtol both contraction_factor max_steps min_slope s =
           Continue (if f_a s * f c < 0
             then s\<lparr>b_pt := c, f_b := f c, c_pt := Some c, f_c := Some (f c),
                    steps := steps s + 1, calls := calls s + 1,
                    use_bisection := use_bisection s - 1, evals := evals s @ [c]\<rparr>
             else s\<lparr>a_pt := b_pt s, f_a := f_b s, b_pt := c, f_b := f c,
                    c_pt := Some c, f_c := Some (f c),
                    steps := steps s + 1, calls := calls s + 1,
                    use_bisection := use_bisection s - 1, evals := evals s @ [c]\<rparr>)
       \<and> (f c = 0 \<longrightarrow>
            pair (state_of (hybrid_iter f ftol xtol both contraction_factor max_steps min_slope s))
              = ((b_pt s, f_b s), (c, 0)))"
  using assms(1,2) unfolding assms(3)
  by (simp add: hybrid_iter_def hybrid_bisect_def pair_def state_of_def Let_def)

text \<open>The state in which \<^verbatim>\<open>find_root\<close> enters its loop for \<open>f x = x\<close>, \<open>a = -1\<close>,
  \<open>b = 1\<close>, \<open>both = False\<close> and \<open>use_bisection = 1\<close>.\<close>

definition bisect_at_root :: state where
  "bisect_at_root = \<lparr>a_pt = - 1, f_a = - 1, b_pt = 1, f_b = 1, c_pt = None, f_c = None,
             steps = 0, calls = 2, use_bisection = 1, evals = [- 1, 1]\<rparr>"

theorem hybrid_bisection_step_witness:
  "hybrid_iter ident (1/2) (1/2) False 0.7071 10 1 bisect_at_root =
     Continue \<lparr>a_pt = 1, f_a = 1, b_pt = 0, f_b = 0, c_pt = Some 0, f_c = Some 0,
             steps = 1, calls = 3, use_bisection = 0, evals = [- 1, 1, 0]\<rparr>"
  using hybrid_bisection_step [where s = bisect_at_root and c = 0 and f = ident
          and max_steps = 10 and ftol = "1/2" and xtol = "1/2" and both = False
          and contraction_factor = "0.7071" and min_slope = 1]
  by (simp add: bisect_at_root_def ident_def)

text \<open>
  C1. Take a pass of the hybrid loop in its Regula Falsi part (\<open>use_bisection = 0\<close>, below
  the iteration limit) that generates a point \<open>c\<close> without converging there, where
  \<open>f_a * f_b < 0\<close> and \<open>c\<close> lies strictly inside the bracket. It replaces \<open>b\<close> by \<open>c\<close>
  when \<open>f_b * f_c \<ge> 0\<close> and otherwise moves \<open>b\<close> to \<open>a\<close> and \<open>c\<close> to \<open>b\<close>, and it
  sets \<open>use_bisection\<close> to 1 exactly when the width of the new pair exceeds
  \<open>contraction_factor\<close> times the width of the pair before the update; otherwise
  \<open>use_bisection\<close> stays 0. After it has been set to 1, the next pass, unless the
  iteration limit stops it, is a bisection step, and that step leaves
  \<open>use_bisection = 0\<close>: one bisection step, and the loop is back in its Regula Falsi
  part.
\<close>

theorem hybrid_slow_contraction:
  assumes "use_bisection s = 0" and "steps s + 1 \<le> max_steps"
    and "gen_point f min_slope xtol (s\<lparr>steps := steps s + 1\<rparr>) = Point s' c fc"
    and "\<not> conv_test both xtol ftol c (b_pt s') fc"
    and "f_a s' * f_b s' < 0"
    and "min (a_pt s') (b_pt s') < c" and "c < max (a_pt s') (b_pt s')"
    and "s'' = (if f_b s' * fc \<ge> 0 then s'\<lparr>b_pt := c, f_b := fc\<rparr>
               else s'\<lparr>a_pt := b_pt s', f_a := f_b s', b_pt := c, f_b := fc\<rparr>)"
  shows "hybrid_iter f ftol xtol both contraction_factor max_steps min_slope s =
           Continue (if width s'' > contraction_factor * width s'
                     then s''\<lparr>use_bisection := 1\<rparr> else s'')
       \<and> use_bisection s'' = 0
       \<and> (steps s + 2 \<le> max_steps \<longrightarrow>
            hybrid_iter f ftol xtol both contraction_factor max_steps min_slope
              (s''\<lparr>use_bisection := 1\<rparr>) =
            Continue (hybrid_bisect f (s''\<lparr>use_bisection := 1, steps := steps s + 2\<rparr>))
          \<and> use_bisection (hybrid_bisect f (s''\<lparr>use_bisection := 1, steps := steps s + 2\<rparr>)) = 0)"
proof -
  from gen_point_frame [OF assms(3)]
  have fr: "steps s' = steps s + 1" "use_bisection s' = 0"
    using assms(1) by simp_all
  have u: "hybrid_update contraction_factor s' c fc =
             (if width s'' > contraction_factor * width s' then s''\<lparr>use_bisection := 1\<rparr> else s'')"
    using assms(5,6,7) unfolding assms(8)
    by (simp add: hybrid_update_def width_def Let_def)
  have i: "hybrid_iter f ftol xtol both contraction_factor max_steps min_slope s =
             Continue (hybrid_update contraction_factor s' c fc)"
    using assms(1,2,3,4) by (simp add: hybrid_iter_def Let_def)
  have st: "steps s'' = steps s + 1" "use_bisection s'' = 0"
    using fr unfolding assms(8) by simp_all
  have n: "steps s + 2 \<le> max_steps \<Longrightarrow>
            hybrid_iter f ftol xtol both contraction_factor max_steps min_slope
              (s''\<lparr>use_bisection := 1\<rparr>) =
            Continue (hybrid_bisect f (s''\<lparr>use_bisection := 1, steps := steps s + 2\<rparr>))"
    using st by (simp add: hybrid_iter_def Let_def add.commute)
  have z: "use_bisection (hybrid_bisect f (s''\<lparr>use_bisection := 1, steps := steps s + 2\<rparr>)) = 0"
    by (simp add: hybrid_bisect_def Let_def)
  from u i st n z show ?thesis by simp
qed

text \<open>
  The state in which \<^verbatim>\<open>find_root\<close> enters its loop for \<open>f x = x * x - 1\<close>, \<open>a = 0\<close>,
  \<open>b = 10\<close>, and the point that its first pass generates: the bracket narrows from 10 to
  9.9 only.
\<close>

definition slow_pair :: state where
  "slow_pair = \<lparr>a_pt = 0, f_a = - 1, b_pt = 10, f_b = 99, c_pt = None, f_c = None,
             steps = 0, calls = 2, use_bisection = 0, evals = [0, 10]\<rparr>"

lemma slow_pair_entry:
  "initial_points parabola 0 10 (1/2) (1/2) True 0 0 = Inr slow_pair"
  by (simp add: initial_points_def parabola_def slow_pair_def Let_def)

lemma slow_pair_point:
  "gen_point parabola 1 (1/2) (slow_pair\<lparr>steps := 1\<rparr>) =
     Point (slow_pair\<lparr>steps := 1, c_pt := Some (1/10), f_c := Some (- 99/100), calls := 3,
                       evals := [0, 10, 1/10]\<rparr>) (1/10) (- 99/100)"
  by (simp add: gen_point_def new_point_def py_div_def parabola_def slow_pair_def Let_def)

theorem hybrid_slow_contraction_witness:
  "initial_points parabola 0 10 (1/2) (1/2) True 0 0 = Inr slow_pair
   \<and> hybrid_iter parabola (1/2) (1/2) True 0.7071 10 1 slow_pair =
     Continue \<lparr>a_pt = 10, f_a = 99, b_pt = 1/10, f_b = - 99/100, c_pt = Some (1/10),
               f_c = Some (- 99/100), steps = 1, calls = 3, use_bisection = 1,
               evals = [0, 10, 1/10]\<rparr>
   \<and> hybrid_iter parabola (1/2) (1/2) True 0.7071 10 1
       \<lparr>a_pt = 10, f_a = 99, b_pt = 1/10, f_b = - 99/100, c_pt = Some (1/10),
        f_c = Some (- 99/100), steps = 1, calls = 3, use_bisection = 1,
        evals = [0, 10, 1/10]\<rparr> =
     Continue \<lparr>a_pt = 1/10, f_a = - 99/100, b_pt = 101/20, f_b = 9801/400,
               c_pt = Some (101/20), f_c = Some (9801/400), steps = 2, calls = 4,
               use_bisection = 0, evals = [0, 10, 1/10, 101/20]\<rparr>"
  using hybrid_slow_contraction [where s = slow_pair and f = parabola and min_slope = 1
          and xtol = "1/2" and ftol = "1/2" and both = True and max_steps = 10
          and contraction_factor = "0.7071" and c = "1/10" and fc = "- 99/100"
          and s' = "slow_pair\<lparr>steps := 1, c_pt := Some (1/10), f_c := Some (- 99/100),
                     calls := 3, evals := [0, 10, 1/10]\<rparr>"
          and s'' = "\<lparr>a_pt = 10, f_a = 99, b_pt = 1/10, f_b = - 99/100, c_pt = Some (1/10),
               f_c = Some (- 99/100), steps = 1, calls = 3, use_bisection = 0,
               evals = [0, 10, 1/10]\<rparr>"]
        slow_pair_point slow_pair_entry
  by (simp add: slow_pair_def conv_test_def width_def hybrid_bisect_def parabola_def Let_def)

text \<open>
  The statements of lines 943-949 are for a new point that is not strictly inside a
  bracket with \<open>f_a * f_b < 0\<close>. The secant line through two points with values of
  opposite sign crosses zero strictly between them, so in exact arithmetic no pass reaches
  these statements: only the rounding of \<^verbatim>\<open>c= b - f_b/slope\<close> in floating point, which
  is not modelled here, places \<open>c\<close> on an endpoint or outside.
\<close>

lemma secant_point_interior:
  assumes "gen_point f min_slope xtol s = Point s1 c fc" and "f_a s1 * f_b s1 < 0"
  shows "min (a_pt s1) (b_pt s1) < c \<and> c < max (a_pt s1) (b_pt s1)"
proof -
  define a b fa fb where "a = a_pt s1" and "b = b_pt s1" and "fa = f_a s1" and "fb = f_b s1"
  from gen_point_frame [OF assms(1)]
  have ne: "b \<noteq> a" "fb \<noteq> fa" and c: "c = b - fb / ((fb - fa) / (b - a))"
    by (simp_all add: a_def b_def fa_def fb_def)
  define t where "t = fb / (fb - fa)"
  from assms(2) have sg: "fa * fb < 0" by (simp add: fa_def fb_def)
  have t: "0 < t \<and> t < 1"
  proof (cases "0 < fb")
    case True
    with sg have "fa < 0" by (simp add: mult_less_0_iff)
    with True show ?thesis by (simp add: t_def)
  next
    case False
    with sg have "fb < 0" "0 < fa" by (auto simp: mult_less_0_iff)
    then show ?thesis by (simp add: t_def divide_less_eq zero_less_divide_iff)
  qed
  have ct: "c = b - t * (b - a)" using ne by (simp add: c t_def)
  have d1: "c - a = (1 - t) * (b - a)" by (simp add: ct algebra_simps)
  have d2: "b - c = t * (b - a)" by (simp add: ct)
  have "min a b < c \<and> c < max a b"
  proof (cases "a < b")
    case True
    with t have "0 < (1 - t) * (b - a)" "0 < t * (b - a)" by simp_all
    with d1 d2 have "0 < c - a" "0 < b - c" by simp_all
    with True show ?thesis by simp
  next
    case False
    with ne have lt: "b < a" by simp
    with t have "(1 - t) * (b - a) < 0" "t * (b - a) < 0" by (simp_all add: mult_less_0_iff)
    with d1 d2 have "c - a < 0" "b - c < 0" by simp_all
    with lt show ?thesis by simp
  qed
  then show ?thesis unfolding a_def b_def .
qed

section \<open>The convergence test after a new point\<close>

text \<open>
  What each loop does with the test at a new point: the bisection loop at its midpoint, and
  the secant, Regula Falsi and hybrid loops at a point generated from the secant line.
\<close>

lemma bisection_converged:
  assumes "c = 0.5 * (a_pt s + b_pt s)"
  shows "bisection_loop f ftol xtol both max_steps s =
           (if conv_test both xtol ftol c (b_pt s) (f c) then (Inr c, evals s @ [c])
            else (case bisection_iter f ftol xtol both max_steps s of
                    Continue t \<Rightarrow> bisection_loop f ftol xtol both max_steps t
                  | Break t \<Rightarrow> return_c t
                  | Return r t \<Rightarrow> (Inr r, evals t)
                  | Raise e t \<Rightarrow> (Inl e, evals t)))
       \<and> (\<not> conv_test both xtol ftol c (b_pt s) (f c) \<longrightarrow>
            bisection_iter f ftol xtol both max_steps s \<noteq> Return r t)"
  unfolding assms
  by (simp add: bisection_loop.simps [of f ftol xtol both max_steps s] bisection_iter_def Let_def)

lemma secant_converged:
  assumes "gen_point f min_slope xtol s = Point s' c fc"
  shows "(conv_test both xtol ftol c (b_pt s') fc \<longrightarrow>
            secant_loop f ftol xtol both max_steps min_slope s = (Inr c, evals s'))
       \<and> (\<not> conv_test both xtol ftol c (b_pt s') fc \<longrightarrow>
            secant_iter f ftol xtol both max_steps min_slope s \<noteq> Break t)"
  using assms gen_point_frame [OF assms]
  by (simp add: secant_loop.simps [of f ftol xtol both max_steps min_slope s] secant_iter_def
        return_c_def Let_def)

lemma regula_falsi_converged:
  assumes "gen_point f min_slope xtol (s\<lparr>steps := steps s + 1\<rparr>) = Point s' c fc"
    and "steps s + 1 \<le> max_steps"
  shows "(conv_test both xtol ftol c (b_pt s') fc \<longrightarrow>
            regula_falsi_loop f ftol xtol both max_steps min_slope s = (Inr c, evals s'))
       \<and> (\<not> conv_test both xtol ftol c (b_pt s') fc \<longrightarrow>
            regula_falsi_iter f ftol xtol both max_steps min_slope s =
              Continue (regula_falsi_update s' c fc))"
  using assms gen_point_frame [OF assms(1)]
  by (simp add: regula_falsi_loop.simps [of f ftol xtol both max_steps min_slope s]
        regula_falsi_iter_def return_c_def Let_def)

lemma hybrid_converged:
  assumes "gen_point f min_slope xtol (s\<lparr>steps := steps s + 1\<rparr>) = Point s' c fc"
    and "steps s + 1 \<le> max_steps" and "use_bisection s = 0"
  shows "(conv_test both xtol ftol c (b_pt s') fc \<longrightarrow>
            hybrid_loop f ftol xtol both contraction_factor max_steps min_slope s =
              (Inr c, evals s'))
       \<and> (\<not> conv_test both xtol ftol c (b_pt s') fc \<longrightarrow>
            hybrid_iter f ftol xtol both contraction_factor max_steps min_slope s =
              Continue (hybrid_update contraction_factor s' c fc))"
  using assms gen_point_frame [OF assms(1)]
  by (simp add: hybrid_loop.simps [of f ftol xtol both contraction_factor max_steps min_slope s]
        hybrid_iter_def return_c_def Let_def)

text \<open>
  The state in which \<^verbatim>\<open>find_root\<close> (with \<open>steps = 0\<close>) and
  \<^verbatim>\<open>find_root_secant\<close> (with \<open>steps = 1\<close>) enter their loops for \<open>f x = x - 1/10\<close>,
  \<open>a = -1\<close>, \<open>b = 1\<close> and \<open>both = False\<close>, the state after one bisection step of the
  hybrid loop from there, and the points generated from the two.
\<close>

definition bisected :: state where
  "bisected = \<lparr>a_pt = 1, f_a = 9/10, b_pt = 0, f_b = - 1/10, c_pt = Some 0,
             f_c = Some (- 1/10), steps = 1, calls = 3, use_bisection = 0,
             evals = [- 1, 1, 0]\<rparr>"

definition shifted_entry :: "int \<Rightarrow> int \<Rightarrow> state" where
  "shifted_entry n ub = \<lparr>a_pt = - 1, f_a = - 11/10, b_pt = 1, f_b = 9/10, c_pt = None,
             f_c = None, steps = n, calls = 2, use_bisection = ub, evals = [- 1, 1]\<rparr>"

lemma bisected_point:
  "gen_point shifted 1 (1/2) (bisected\<lparr>steps := 2\<rparr>) =
     Point (bisected\<lparr>steps := 2, c_pt := Some (1/10), f_c := Some 0, calls := 4,
                      evals := [- 1, 1, 0, 1/10]\<rparr>) (1/10) 0"
  by (simp add: gen_point_def new_point_def py_div_def shifted_def bisected_def Let_def)

lemma shifted_entry_point:
  "gen_point shifted 1 (1/2) (shifted_entry n ub) =
     Point ((shifted_entry n ub)\<lparr>c_pt := Some (1/10), f_c := Some 0, calls := 3,
                      evals := [- 1, 1, 1/10]\<rparr>) (1/10) 0"
  by (simp add: gen_point_def new_point_def py_div_def shifted_def shifted_entry_def Let_def)

text \<open>
  C2, as stated, has the test made, and \<open>c\<close> returned, also after a bisection step of the
  hybrid solver. Here \<^verbatim>\<open>find_root\<close> starts with \<open>use_bisection = 1\<close>; its bisection step
  generates \<open>c = 0\<close> with \<open>\<bar>f c\<bar> = 1/10 \<le> ftol\<close>, so the test for \<open>both = False\<close>
  holds against \<open>b = 1\<close>, but the pass goes round again and the solver returns \<open>1/10\<close>,
  after one more call of \<open>f\<close>.
\<close>

theorem hybrid_bisection_untested_counterexample:
  "initial_points shifted (- 1) 1 (1/2) (1/2) False 0 1 = Inr (shifted_entry 0 1)
   \<and> hybrid_iter shifted (1/2) (1/2) False 0.7071 10 1 (shifted_entry 0 1) = Continue bisected
   \<and> c_pt bisected = Some 0
   \<and> conv_test False (1/2) (1/2) 0 (b_pt (shifted_entry 0 1)) (shifted 0)
   \<and> find_root shifted (- 1) 1 (1/2) (1/2) False 0.7071 10 1 1 =
       (Inr (1/10), [- 1, 1, 0, 1/10])"
proof -
  have e: "initial_points shifted (- 1) 1 (1/2) (1/2) False 0 1 = Inr (shifted_entry 0 1)"
    by (simp add: initial_points_def shifted_def shifted_entry_def Let_def)
  have i: "hybrid_iter shifted (1/2) (1/2) False 0.7071 10 1 (shifted_entry 0 1) =
             Continue bisected"
    by (simp add: hybrid_iter_def hybrid_bisect_def shifted_def shifted_entry_def bisected_def
          Let_def)
  have j: "hybrid_iter shifted (1/2) (1/2) False 0.7071 10 1 bisected =
             Break (bisected\<lparr>steps := 2, c_pt := Some (1/10), f_c := Some 0, calls := 4,
                      evals := [- 1, 1, 0, 1/10]\<rparr>)"
    using bisected_point
    by (simp add: hybrid_iter_def conv_test_def bisected_def Let_def)
  have l: "hybrid_loop shifted (1/2) (1/2) False 0.7071 10 1 (shifted_entry 0 1) =
             (Inr (1/10), [- 1, 1, 0, 1/10])"
    using i j
    by (simp add: hybrid_loop.simps [of _ _ _ _ _ _ _ "shifted_entry 0 1"]
          hybrid_loop.simps [of _ _ _ _ _ _ _ bisected] return_c_def)
  have r: "find_root shifted (- 1) 1 (1/2) (1/2) False 0.7071 10 1 1 =
             (Inr (1/10), [- 1, 1, 0, 1/10])"
    using l by (simp add: find_root_def e) (simp add: shifted_entry_def)
  show ?thesis
    using e i r by (simp add: conv_test_def shifted_def shifted_entry_def bisected_def)
qed

text \<open>
  C2, amended. In each of the four loops the test is made after every new point except
  those of the bisection steps of the hybrid loop. In the bisection loop the midpoint \<open>c\<close>
  is returned when the test against \<open>b\<close> holds, and the pass does not return otherwise. In
  the secant, Regula Falsi and hybrid loops a point \<open>d\<close> generated from the secant line is
  tested against the value that \<open>b\<close> has when \<open>d\<close> is generated (after the shift of
  \<open>b\<close>, if the slope was repaired); \<open>d\<close> is returned when the test holds, and otherwise
  the loop does not end at the test: the Regula Falsi and hybrid loops go on to the update
  of the pair. A pass of the hybrid loop with \<open>use_bisection \<noteq> 0\<close> below the iteration
  limit goes round again after its bisection step, whatever the test would say.
\<close>

theorem convergence_test_after_new_point:
  "(c = 0.5 * (a_pt s + b_pt s) \<longrightarrow>
      (conv_test both xtol ftol c (b_pt s) (f c) \<longrightarrow>
         bisection_loop f ftol xtol both max_steps s = (Inr c, evals s @ [c]))
    \<and> (\<not> conv_test both xtol ftol c (b_pt s) (f c) \<longrightarrow>
         bisection_iter f ftol xtol both max_steps s \<noteq> Return r t))
   \<and> (gen_point f min_slope xtol s = Point s' d fd \<longrightarrow>
      (conv_test both xtol ftol d (b_pt s') fd \<longrightarrow>
         secant_loop f ftol xtol both max_steps min_slope s = (Inr d, evals s'))
    \<and> (\<not> conv_test both xtol ftol d (b_pt s') fd \<longrightarrow>
         secant_iter f ftol xtol both max_steps min_slope s \<noteq> Break t))
   \<and> (gen_point f min_slope xtol (s\<lparr>steps := steps s + 1\<rparr>) = Point s' d fd
        \<and> steps s + 1 \<le> max_steps \<longrightarrow>
      (conv_test both xtol ftol d (b_pt s') fd \<longrightarrow>
         regula_falsi_loop f ftol xtol both max_steps min_slope s = (Inr d, evals s')
       \<and> (use_bisection s = 0 \<longrightarrow>
            hybrid_loop f ftol xtol both contraction_factor max_steps min_slope s =
              (Inr d, evals s')))
    \<and> (\<not> conv_test both xtol ftol d (b_pt s') fd \<longrightarrow>
         regula_falsi_iter f ftol xtol both max_steps min_slope s =
           Continue (regula_falsi_update s' d fd)
       \<and> (use_bisection s = 0 \<longrightarrow>
            hybrid_iter f ftol xtol both contraction_factor max_steps min_slope s =
              Continue (hybrid_update contraction_factor s' d fd))))
   \<and> (use_bisection s \<noteq> 0 \<and> steps s + 1 \<le> max_steps \<longrightarrow>
        hybrid_iter f ftol xtol both contraction_factor max_steps min_slope s =
          Continue (hybrid_bisect f (s\<lparr>steps := steps s + 1\<rparr>)))"
proof -
  have b: "c = 0.5 * (a_pt s + b_pt s) \<longrightarrow>
      (conv_test both xtol ftol c (b_pt s) (f c) \<longrightarrow>
         bisection_loop f ftol xtol both max_steps s = (Inr c, evals s @ [c]))
    \<and> (\<not> conv_test both xtol ftol c (b_pt s) (f c) \<longrightarrow>
         bisection_iter f ftol xtol both max_steps s \<noteq> Return r t)"
    using bisection_converged [of c s f ftol xtol both max_steps r t] by simp
  have g: "gen_point f min_slope xtol s = Point s' d fd \<longrightarrow>
      (conv_test both xtol ftol d (b_pt s') fd \<longrightarrow>
         secant_loop f ftol xtol both max_steps min_slope s = (Inr d, evals s'))
    \<and> (\<not> conv_test both xtol ftol d (b_pt s') fd \<longrightarrow>
         secant_iter f ftol xtol both max_steps min_slope s \<noteq> Break t)"
    using secant_converged [of f min_slope xtol s s' d fd both ftol max_steps t] by blast
  have r: "gen_point f min_slope xtol (s\<lparr>steps := steps s + 1\<rparr>) = Point s' d fd
        \<and> steps s + 1 \<le> max_steps \<longrightarrow>
      (conv_test both xtol ftol d (b_pt s') fd \<longrightarrow>
         regula_falsi_loop f ftol xtol both max_steps min_slope s = (Inr d, evals s')
       \<and> (use_bisection s = 0 \<longrightarrow>
            hybrid_loop f ftol xtol both contraction_factor max_steps min_slope s =
              (Inr d, evals s')))
    \<and> (\<not> conv_test both xtol ftol d (b_pt s') fd \<longrightarrow>
         regula_falsi_iter f ftol xtol both max_steps min_slope s =
           Continue (regula_falsi_update s' d fd)
       \<and> (use_bisection s = 0 \<longrightarrow>
            hybrid_iter f ftol xtol both contraction_factor max_steps min_slope s =
              Continue (hybrid_update contraction_factor s' d fd)))"
    using regula_falsi_converged [of f min_slope xtol s s' d fd max_steps both ftol]
          hybrid_converged [of f min_slope xtol s s' d fd max_steps both ftol contraction_factor]
    by blast
  have h: "use_bisection s \<noteq> 0 \<and> steps s + 1 \<le> max_steps \<longrightarrow>
        hybrid_iter f ftol xtol both contraction_factor max_steps min_slope s =
          Continue (hybrid_bisect f (s\<lparr>steps := steps s + 1\<rparr>))"
    by (simp add: hybrid_iter_def Let_def)
  from b g r h show ?thesis by (intro conjI)
qed

theorem convergence_test_after_new_point_witness:
  "bisection_loop ident 1 2 True 10 kept_a = (Inr 1, [- 1, 3, 1])
   \<and> secant_loop shifted (1/2) (1/2) False 10 1 (shifted_entry 1 0) =
       (Inr (1/10), [- 1, 1, 1/10])
   \<and> hybrid_loop shifted (1/2) (1/2) False 0.7071 10 1 bisected =
       (Inr (1/10), [- 1, 1, 0, 1/10])
   \<and> hybrid_iter shifted (1/2) (1/2) False 0.7071 10 1 (shifted_entry 0 1) =
       Continue (hybrid_bisect shifted ((shifted_entry 0 1)\<lparr>steps := 1\<rparr>))"
  using convergence_test_after_new_point [where c = 1 and s = kept_a and f = ident
          and both = True and xtol = 2 and ftol = 1 and max_steps = 10]
        convergence_test_after_new_point [where s = "shifted_entry 1 0" and f = shifted
          and both = False and xtol = "1/2" and ftol = "1/2" and max_steps = 10
          and min_slope = 1 and d = "1/10" and fd = 0
          and s' = "(shifted_entry 1 0)\<lparr>c_pt := Some (1/10), f_c := Some 0, calls := 3,
                      evals := [- 1, 1, 1/10]\<rparr>"]
        convergence_test_after_new_point [where s = bisected and f = shifted
          and both = False and xtol = "1/2" and ftol = "1/2" and max_steps = 10
          and min_slope = 1 and d = "1/10" and fd = 0 and contraction_factor = "0.7071"
          and s' = "bisected\<lparr>steps := 2, c_pt := Some (1/10), f_c := Some 0, calls := 4,
                      evals := [- 1, 1, 0, 1/10]\<rparr>"]
        convergence_test_after_new_point [where s = "shifted_entry 0 1" and f = shifted
          and both = False and xtol = "1/2" and ftol = "1/2" and max_steps = 10
          and min_slope = 1 and contraction_factor = "0.7071"]
        bisected_point shifted_entry_point [of 1 0]
  by (simp add: kept_a_def ident_def conv_test_def bisected_def shifted_entry_def)

section \<open>Properties of the secant solver\<close>

text \<open>
  After a pass of the secant loop that goes round again, \<^verbatim>\<open>c\<close> holds the point that
  has just become \<open>b\<close>.
\<close>

lemma secant_iter_c_pt:
  assumes "secant_iter f ftol xtol both max_steps min_slope s = Continue t"
  shows "c_pt t = Some (b_pt t)"
proof (cases "gen_point f min_slope xtol s")
  case (Stop out)
  with assms show ?thesis by (simp add: secant_iter_def gen_point_not_continue)
next
  case (Point s' c fc)
  from gen_point_frame [OF Point] have "c_pt s' = Some c" by simp
  with assms Point show ?thesis
    by (auto simp: secant_iter_def Let_def split: if_splits)
qed

text \<open>
  C5. Take a pass of the secant loop in which the slope is below \<open>min_slope\<close> in
  magnitude, and is so again after \<open>b\<close> has been shifted to
  \<open>b' = 0.3679 * a + 0.6321 * b\<close>. When \<open>\<bar>b' - a\<bar> > xtol\<close> the solver raises, but what
  leaves it is the \<^verbatim>\<open>NameError\<close> of the unbound name \<^verbatim>\<open>AlgorithmFailure\<close>.
  When \<open>\<bar>b' - a\<bar> \<le> xtol\<close> the loop is left for \<^verbatim>\<open>return c\<close>: in the first pass
  \<^verbatim>\<open>c\<close> is unbound and \<^verbatim>\<open>UnboundLocalError\<close> is raised; in a later pass
  \<^verbatim>\<open>c\<close> holds the value that \<open>b\<close> had before the shift, which differs from \<open>b'\<close>.
  In neither case is the current \<open>b\<close>, that is \<open>b'\<close>, returned. \<open>f\<close> has been called once
  more, at \<open>b'\<close>.
\<close>

theorem secant_small_slope:
  assumes "b_pt s \<noteq> a_pt s"
    and "\<bar>(f_b s - f_a s) / (b_pt s - a_pt s)\<bar> < min_slope"
    and "b' = 0.3679 * a_pt s + 0.6321 * b_pt s"
    and "\<bar>(f b' - f_a s) / (b' - a_pt s)\<bar> < min_slope"
  shows "secant_loop f ftol xtol both max_steps min_slope s =
           (if \<bar>b' - a_pt s\<bar> \<le> xtol
            then (case c_pt s of None \<Rightarrow> Inl (UnboundLocalError ''c'') | Some c \<Rightarrow> Inr c)
            else Inl (NameError ''AlgorithmFailure''), evals s @ [b'])
       \<and> b' \<noteq> b_pt s
       \<and> (c_pt s = None \<or> c_pt s = Some (b_pt s) \<longrightarrow>
            fst (secant_loop f ftol xtol both max_steps min_slope s) \<noteq> Inr b')"
proof -
  have d: "b' - a_pt s = 0.6321 * (b_pt s - a_pt s)" unfolding assms(3) by (simp add: algebra_simps)
  with assms(1) have ne: "b' \<noteq> a_pt s" by auto
  have nb: "b' \<noteq> b_pt s"
  proof
    assume "b' = b_pt s"
    with d have "0.3679 * (b_pt s - a_pt s) = 0" by (simp add: algebra_simps)
    with assms(1) show False by simp
  qed
  have g: "gen_point f min_slope xtol s =
             (if \<bar>b' - a_pt s\<bar> \<le> xtol
              then Stop (Break (s\<lparr>b_pt := b', f_b := f b', calls := calls s + 1,
                                   evals := evals s @ [b']\<rparr>))
              else Stop (Raise (NameError ''AlgorithmFailure'')
                     (s\<lparr>b_pt := b', f_b := f b', calls := calls s + 1,
                        evals := evals s @ [b']\<rparr>)))"
    using assms(1,2,4) ne unfolding assms(3)
    by (simp add: gen_point_def py_div_def Let_def)
  have l: "secant_loop f ftol xtol both max_steps min_slope s =
           (if \<bar>b' - a_pt s\<bar> \<le> xtol
            then (case c_pt s of None \<Rightarrow> Inl (UnboundLocalError ''c'') | Some c \<Rightarrow> Inr c)
            else Inl (NameError ''AlgorithmFailure''), evals s @ [b'])"
    by (simp add: secant_loop.simps [of f ftol xtol both max_steps min_slope s] secant_iter_def g
          return_c_def split: option.splits)
  from nb show ?thesis unfolding l by (auto split: option.splits)
qed

text \<open>
  The state in which \<^verbatim>\<open>find_root_secant\<close> enters its loop for the constant function
  1, \<open>a = 0\<close>, \<open>b = 1\<close>, and the state after its first pass for the function with two
  levels, \<open>a = 0\<close>, \<open>b = 1\<close>.
\<close>

definition flat_entry :: state where
  "flat_entry = \<lparr>a_pt = 0, f_a = 1, b_pt = 1, f_b = 1, c_pt = None, f_c = None,
             steps = 1, calls = 2, use_bisection = 0, evals = [0, 1]\<rparr>"

definition level_pair :: state where
  "level_pair = \<lparr>a_pt = 1, f_a = - 1, b_pt = 2, f_b = - 1, c_pt = Some 2, f_c = Some (- 1),
             steps = 2, calls = 3, use_bisection = 0, evals = [0, 1, 2]\<rparr>"

lemma flat_entry_start:
  "initial_points flat 0 1 (1/2) 1 True 1 0 = Inr flat_entry
   \<and> initial_points flat 0 1 (1/2) (1/2) True 1 0 = Inr flat_entry"
  by (simp add: initial_points_def flat_def flat_entry_def Let_def)

lemma level_pair_reached:
  "initial_points two_levels 0 1 (1/2) 1 True 1 0 =
     Inr \<lparr>a_pt = 0, f_a = - 2, b_pt = 1, f_b = - 1, c_pt = None, f_c = None,
          steps = 1, calls = 2, use_bisection = 0, evals = [0, 1]\<rparr>
   \<and> secant_iter two_levels (1/2) 1 True 10 (1 / 10 ^ 60)
       \<lparr>a_pt = 0, f_a = - 2, b_pt = 1, f_b = - 1, c_pt = None, f_c = None,
        steps = 1, calls = 2, use_bisection = 0, evals = [0, 1]\<rparr> = Continue level_pair"
  by (simp add: initial_points_def two_levels_def level_pair_def Let_def secant_iter_def
        gen_point_def new_point_def py_div_def conv_test_def)

theorem secant_small_slope_witness:
  "secant_loop flat (1/2) 1 True 10 (1 / 10 ^ 60) flat_entry =
     (Inl (UnboundLocalError ''c''), [0, 1, 6321/10000])
   \<and> secant_loop flat (1/2) (1/2) True 10 (1 / 10 ^ 60) flat_entry =
     (Inl (NameError ''AlgorithmFailure''), [0, 1, 6321/10000])
   \<and> secant_loop two_levels (1/2) 1 True 10 (1 / 10 ^ 60) level_pair =
     (Inr 2, [0, 1, 2, 16321/10000])"
  using secant_small_slope [where s = flat_entry and f = flat and min_slope = "1 / 10 ^ 60"
          and b' = "6321/10000" and xtol = 1 and ftol = "1/2" and both = True
          and max_steps = 10]
        secant_small_slope [where s = flat_entry and f = flat and min_slope = "1 / 10 ^ 60"
          and b' = "6321/10000" and xtol = "1/2" and ftol = "1/2" and both = True
          and max_steps = 10]
        secant_small_slope [where s = level_pair and f = two_levels
          and min_slope = "1 / 10 ^ 60"
          and b' = "16321/10000" and xtol = 1 and ftol = "1/2" and both = True
          and max_steps = 10]
  by (simp add: flat_entry_def flat_def level_pair_def two_levels_def)

text \<open>The same three runs from the call of \<^verbatim>\<open>find_root_secant\<close>.\<close>

lemma secant_small_slope_runs:
  "find_root_secant flat 0 1 (1/2) 1 True 10 (1 / 10 ^ 60) =
     (Inl (UnboundLocalError ''c''), [0, 1, 6321/10000])
   \<and> find_root_secant flat 0 1 (1/2) (1/2) True 10 (1 / 10 ^ 60) =
     (Inl (NameError ''AlgorithmFailure''), [0, 1, 6321/10000])
   \<and> find_root_secant two_levels 0 1 (1/2) 1 True 10 (1 / 10 ^ 60) =
     (Inr 2, [0, 1, 2, 16321/10000])"
proof -
  have g: "gen_point flat (1 / 10 ^ 60) x flat_entry =
             (if 6321/10000 \<le> x
              then Stop (Break (flat_entry\<lparr>b_pt := 6321/10000, f_b := 1, calls := 3,
                                   evals := [0, 1, 6321/10000]\<rparr>))
              else Stop (Raise (NameError ''AlgorithmFailure'')
                     (flat_entry\<lparr>b_pt := 6321/10000, f_b := 1, calls := 3,
                        evals := [0, 1, 6321/10000]\<rparr>)))" for x
    by (simp add: gen_point_def py_div_def flat_def flat_entry_def Let_def)
  have a: "secant_loop flat (1/2) 1 True 10 (1 / 10 ^ 60) flat_entry =
     (Inl (UnboundLocalError ''c''), [0, 1, 6321/10000])"
    using g [of 1]
    by (simp add: secant_loop.simps [of _ _ _ _ _ _ flat_entry] secant_iter_def return_c_def)
       (simp add: flat_entry_def)
  have b: "secant_loop flat (1/2) (1/2) True 10 (1 / 10 ^ 60) flat_entry =
     (Inl (NameError ''AlgorithmFailure''), [0, 1, 6321/10000])"
    using g [of "1/2"]
    by (simp add: secant_loop.simps [of _ _ _ _ _ _ flat_entry] secant_iter_def return_c_def)
  have h: "gen_point two_levels (1 / 10 ^ 60) 1 level_pair =
             Stop (Break (level_pair\<lparr>b_pt := 16321/10000, f_b := - 1, calls := 4,
                                   evals := [0, 1, 2, 16321/10000]\<rparr>))"
    by (simp add: gen_point_def py_div_def two_levels_def level_pair_def Let_def)
  have c: "secant_loop two_levels (1/2) 1 True 10 (1 / 10 ^ 60) level_pair =
     (Inr 2, [0, 1, 2, 16321/10000])"
    using h
    by (simp add: secant_loop.simps [of _ _ _ _ _ _ level_pair] secant_iter_def return_c_def)
       (simp add: level_pair_def)
  let ?e = "\<lparr>a_pt = 0, f_a = - 2, b_pt = 1, f_b = - 1, c_pt = None, f_c = None,
          steps = 1, calls = 2, use_bisection = 0, evals = [0, 1]\<rparr>"
  have d: "secant_loop two_levels (1/2) 1 True 10 (1 / 10 ^ 60) ?e =
     (Inr 2, [0, 1, 2, 16321/10000])"
    using c level_pair_reached
    by (simp add: secant_loop.simps [of _ _ _ _ _ _ ?e])
  from a b d flat_entry_start level_pair_reached show ?thesis
    by (simp add: find_root_secant_def)
qed

section \<open>Properties of the hybrid solver: before the loop\<close>

text \<open>
  C10. \<^verbatim>\<open>find_root\<close> tests the signs of \<open>f a\<close> and \<open>f b\<close> for
  \<open>use_bisection > 0\<close> only after the tests for convergence at the two initial points.
  With valid parameters, \<open>use_bisection > 0\<close> and \<open>f a * f b > 0\<close> it returns \<open>a\<close>
  or \<open>b\<close> whenever one of these tests holds, and it raises at the test of the signs in
  every other case; the theorem gives the result for every such input.
\<close>

theorem find_root_shortcut_first:
  assumes "0 < xtol" and "0 < ftol" and "0.5 \<le> contraction_factor" and "contraction_factor \<le> 1"
    and "0 < ub" and "f a * f b > 0"
  shows "find_root f a b ftol xtol both contraction_factor max_steps min_slope ub =
     (if both
      then (if \<bar>b - a\<bar> \<le> xtol \<and> \<bar>f a\<bar> \<le> ftol then (Inr a, [a, b])
            else if \<bar>b - a\<bar> \<le> xtol \<and> \<bar>f b\<bar> \<le> ftol then (Inr b, [a, b])
            else (Inl (NameError ''AlgorithmFailure''), [a, b]))
      else (if \<bar>b - a\<bar> \<le> xtol then (Inl (ValueError (Start_values_too_close xtol)), [])
            else if \<bar>f a\<bar> \<le> ftol then (Inr a, [a])
            else if \<bar>f b\<bar> \<le> ftol then (Inr b, [a, b])
            else (Inl (NameError ''AlgorithmFailure''), [a, b])))"
  using assms
  by (simp add: find_root_def initial_points_def Let_def)

theorem find_root_shortcut_first_witness:
  "find_root ident (1/4) 1 (1/2) 1 True 0.7071 10 1 1 = (Inr (1/4), [1/4, 1])
   \<and> find_root ident 1 (1/4) (1/2) 1 True 0.7071 10 1 1 = (Inr (1/4), [1, 1/4])
   \<and> find_root ident (1/4) 2 (1/2) 1 False 0.7071 10 1 1 = (Inr (1/4), [1/4])
   \<and> find_root ident 1 2 (1/2) 1 True 0.7071 10 1 1 = (Inl (NameError ''AlgorithmFailure''), [1, 2])"
  using find_root_shortcut_first [where f = ident and a = "1/4" and b = 1 and ftol = "1/2"
          and xtol = 1 and both = True and contraction_factor = "0.7071" and max_steps = 10
          and min_slope = 1 and ub = 1]
        find_root_shortcut_first [where f = ident and a = 1 and b = "1/4" and ftol = "1/2"
          and xtol = 1 and both = True and contraction_factor = "0.7071" and max_steps = 10
          and min_slope = 1 and ub = 1]
        find_root_shortcut_first [where f = ident and a = "1/4" and b = 2 and ftol = "1/2"
          and xtol = 1 and both = False and contraction_factor = "0.7071" and max_steps = 10
          and min_slope = 1 and ub = 1]
        find_root_shortcut_first [where f = ident and a = 1 and b = 2 and ftol = "1/2"
          and xtol = 1 and both = True and contraction_factor = "0.7071" and max_steps = 10
          and min_slope = 1 and ub = 1]
  by (simp add: ident_def)

section \<open>Properties of the Regula Falsi solver\<close>

text \<open>
  C4. Every call of \<^verbatim>\<open>find_root_Regula_Falsi\<close> with positive tolerances raises
  \<^verbatim>\<open>NameError\<close> for the name \<^verbatim>\<open>contraction_factor\<close> before \<open>f\<close> has been
  called; \<^verbatim>\<open>use_bisection\<close>, which the next test reads, is unbound too. No call at
  all returns a root or calls \<open>f\<close>, as the other calls raise \<^verbatim>\<open>ValueError\<close>.
\<close>

theorem regula_falsi_name_error:
  "(0 < xtol \<and> 0 < ftol \<longrightarrow>
      find_root_Regula_Falsi f a b ftol xtol both max_steps min_slope =
        (Inl (NameError ''contraction_factor''), []))
   \<and> fst (find_root_Regula_Falsi f a b ftol xtol both max_steps min_slope) \<noteq> Inr r
   \<and> snd (find_root_Regula_Falsi f a b ftol xtol both max_steps min_slope) = []
   \<and> module_globals ''contraction_factor'' = None
   \<and> module_globals ''use_bisection'' = None"
  by (simp add: find_root_Regula_Falsi_def module_globals_def)

theorem regula_falsi_name_error_witness:
  "find_root_Regula_Falsi ident (- 1) 1 (1/2) (1/2) True 10 1 =
     (Inl (NameError ''contraction_factor''), [])"
  using regula_falsi_name_error [of "1/2" "1/2" ident "- 1" 1 True 10 1]
  by simp

section \<open>The bracket in the Regula Falsi and hybrid loops\<close>

text \<open>
  A pair brackets when the product of its two stored values is not positive; the stored
  values are consistent when they are the values of \<open>f\<close> at the two points, as they are
  when the loops start; and a pass in the Regula Falsi part repairs the slope when the
  slope of the pair it starts from is below \<open>min_slope\<close> in magnitude (lines 375-377 and
  905-907), which makes it shift \<open>b\<close>.
\<close>

definition consistent :: "(real \<Rightarrow> real) \<Rightarrow> state \<Rightarrow> bool" where
  "consistent f s = (f_a s = f (a_pt s) \<and> f_b s = f (b_pt s))"

definition brackets :: "state \<Rightarrow> bool" where
  "brackets s = (f_a s * f_b s \<le> 0)"

definition repairs :: "real \<Rightarrow> state \<Rightarrow> bool" where
  "repairs min_slope s = (\<bar>(f_b s - f_a s) / (b_pt s - a_pt s)\<bar> < min_slope)"

text \<open>
  The states in which the first \<open>n + 1\<close> passes of a loop with the given body start, or
  all of them when the loop ends before.
\<close>

fun loop_states :: "(state \<Rightarrow> outcome) \<Rightarrow> nat \<Rightarrow> state \<Rightarrow> state list" where
  "loop_states body 0 s = [s]"
| "loop_states body (Suc n) s =
     s # (case body s of
            Continue t \<Rightarrow> loop_states body n t
          | Break t \<Rightarrow> []
          | Return r t \<Rightarrow> []
          | Raise e t \<Rightarrow> [])"

lemma loop_states_nonempty: "loop_states body n s \<noteq> []"
  by (cases n) simp_all

text \<open>One pass: the updates of the pair, and the two loop bodies.\<close>

lemma initial_points_consistent:
  "initial_points f a b ftol xtol both steps0 ub = Inr s \<Longrightarrow> consistent f s"
  by (auto simp: initial_points_def consistent_def Let_def split: if_splits)


lemma gen_point_plain:
  assumes "\<not> repairs min_slope s" and "gen_point f min_slope xtol s = Point s' c fc"
  shows "b_pt s' = b_pt s \<and> f_b s' = f_b s"
proof -
  from assms have "new_point f ((f_b s - f_a s) / (b_pt s - a_pt s)) s = Point s' c fc"
    by (auto simp: gen_point_def py_div_def repairs_def Let_def split: if_splits)
  from new_point_frame [OF this] show ?thesis by simp
qed



lemma update_consistent:
  assumes "consistent f s"
  shows "consistent f (hybrid_update contraction_factor s c (f c))
       \<and> consistent f (regula_falsi_update s c (f c))"
  using assms
  by (simp add: hybrid_update_def regula_falsi_update_def consistent_def Let_def)



lemma steps_irrelevant:
  "consistent f (s\<lparr>steps := n\<rparr>) = consistent f s"
  "brackets (s\<lparr>steps := n\<rparr>) = brackets s"
  "repairs min_slope (s\<lparr>steps := n\<rparr>) = repairs min_slope s"
  by (simp_all add: consistent_def brackets_def repairs_def)



lemma loop_states_invariant:
  assumes step: "\<And>s t. I s \<Longrightarrow> Q s \<Longrightarrow> body s = Continue t \<Longrightarrow> I t"
  shows "I s \<Longrightarrow> \<forall>u \<in> set (butlast (loop_states body n s)). Q u \<Longrightarrow>
         \<forall>u \<in> set (loop_states body n s). I u"
proof (induction n arbitrary: s)
  case 0
  then show ?case by simp
next
  case (Suc n)
  show ?case
  proof (cases "body s")
    case (Continue t)
    with Suc.prems(2) have p: "Q s" and q: "\<forall>u \<in> set (butlast (loop_states body n t)). Q u"
      by (simp_all add: loop_states_nonempty)
    from step [OF Suc.prems(1) p Continue] have "I t" .
    from Suc.IH [OF this q] Suc.prems(1) Continue show ?thesis by simp
  next
    case (Break t)
    with Suc.prems(1) show ?thesis by simp
  next
    case (Return r t)
    with Suc.prems(1) show ?thesis by simp
  next
    case (Raise e t)
    with Suc.prems(1) show ?thesis by simp
  qed
qed

text \<open>
  The stored values stay consistent in every pass of the hybrid loop, with or without a
  repair of the slope, so every state that the loop reaches from its start is consistent.
\<close>

lemma gen_point_consistent:
  assumes "gen_point f min_slope xtol s = Point s' c fc" and "consistent f s"
  shows "consistent f s'"
proof (cases "repairs min_slope s")
  case False
  from gen_point_frame [OF assms(1)] gen_point_plain [OF False assms(1)] assms(2)
  show ?thesis by (simp add: consistent_def)
next
  case True
  let ?b = "0.3679 * a_pt s + 0.6321 * b_pt s"
  from gen_point_frame [OF assms(1)] have a: "a_pt s' = a_pt s" "f_a s' = f_a s" by simp_all
  from assms(1) True
  have "\<exists>slope. new_point f slope (s\<lparr>b_pt := ?b, f_b := f ?b, calls := calls s + 1,
                                      evals := evals s @ [?b]\<rparr>) = Point s' c fc"
    by (auto simp: gen_point_def py_div_def repairs_def Let_def split: if_splits)
  then obtain slope where
    "new_point f slope (s\<lparr>b_pt := ?b, f_b := f ?b, calls := calls s + 1,
                          evals := evals s @ [?b]\<rparr>) = Point s' c fc" ..
  from new_point_frame [OF this] have "b_pt s' = ?b" "f_b s' = f ?b" by simp_all
  with a assms(2) show ?thesis by (simp add: consistent_def)
qed

lemma hybrid_iter_consistent:
  assumes "consistent f s"
    and "hybrid_iter f ftol xtol both contraction_factor max_steps min_slope s = Continue t"
  shows "consistent f t"
proof (cases "use_bisection s \<noteq> 0")
  case True
  with assms(2) have t: "t = hybrid_bisect f (s\<lparr>steps := steps s + 1\<rparr>)"
    by (auto simp: hybrid_iter_def Let_def split: if_splits)
  from assms(1) show ?thesis unfolding t
    by (simp add: hybrid_bisect_def consistent_def Let_def)
next
  case False
  let ?s = "s\<lparr>steps := steps s + 1\<rparr>"
  show ?thesis
  proof (cases "gen_point f min_slope xtol ?s")
    case (Stop out)
    with assms(2) False show ?thesis
      by (simp add: hybrid_iter_def Let_def gen_point_not_continue split: if_splits)
  next
    case (Point s' c fc)
    with assms(2) False have t: "t = hybrid_update contraction_factor s' c fc"
      by (auto simp: hybrid_iter_def Let_def split: if_splits)
    from assms(1) have "consistent f ?s" by (simp add: steps_irrelevant)
    from gen_point_consistent [OF Point this] have cs: "consistent f s'" .
    from gen_point_frame [OF Point] have "fc = f c" by simp
    with update_consistent [OF cs, of contraction_factor c] show ?thesis unfolding t by simp
  qed
qed

lemma hybrid_loop_states_consistent:
  assumes "initial_points f a b ftol xtol both 0 ub = Inr s"
  shows "\<forall>u \<in> set (loop_states
           (hybrid_iter f ftol xtol both contraction_factor max_steps min_slope) n s).
           consistent f u"
  by (rule loop_states_invariant [where I = "consistent f" and Q = "\<lambda>u. True"])
     (use initial_points_consistent [OF assms] hybrid_iter_consistent in auto)








end
